theory Spec2Isabelle
  imports Complex_Main "HOL-Library.Multiset"
begin

section \<open>Numeric model\<close>

text \<open>
  The program computes with numpy \<open>float64\<close> arrays. A value of that arithmetic is a
  real number, an infinity or NaN. Every arithmetic operation is the exact operation
  followed by the rounding of IEEE 754 binary64: to the nearest number with 53
  significant bits, to the even one of two nearest, with gradual underflow below
  \<open>2 ^ - 1022\<close> and overflow to an infinity from \<open>2 ^ 1024\<close> on. The sign of zero is not
  kept: a zero divisor counts as \<open>+0\<close>. Arrays given to the program hold finite numbers
  (\<open>real list\<close>, meant to hold numbers of the format); values the program computes
  are of type \<open>fl\<close>.
\<close>

datatype fl = Fin real | PInf | NInf | NaN

definition signed_inf :: "bool \<Rightarrow> fl" where
  "signed_inf pos = (if pos then PInf else NInf)"

text \<open>The integer nearest to \<open>q\<close>, the even one when \<open>q\<close> lies half way between two.\<close>

definition rne :: "real \<Rightarrow> int" where
  "rne q = (let n = \<lfloor>q\<rfloor>; r = q - of_int n
            in if r < 1 / 2 then n else if 1 / 2 < r then n + 1
               else if even n then n else n + 1)"

text \<open>
  The exponent of the last of the 53 bits of a number of the size of \<open>x\<close>; it does not
  fall below \<open>- 1074\<close>.
\<close>

definition ulp_exponent :: "real \<Rightarrow> int" where
  "ulp_exponent x = max \<lfloor>log 2 \<bar>x\<bar>\<rfloor> (- 1022) - 52"

definition rnd :: "real \<Rightarrow> fl" where
  "rnd x = (if x = 0 then Fin 0
            else let u = 2 powi ulp_exponent x; y = of_int (rne (x / u)) * u
                 in if 2 ^ 1024 \<le> \<bar>y\<bar> then signed_inf (0 < x) else Fin y)"

fun fadd :: "fl \<Rightarrow> fl \<Rightarrow> fl" where
  "fadd NaN y = NaN"
| "fadd x NaN = NaN"
| "fadd (Fin a) (Fin b) = rnd (a + b)"
| "fadd PInf NInf = NaN"
| "fadd NInf PInf = NaN"
| "fadd PInf y = PInf"
| "fadd x PInf = PInf"
| "fadd NInf y = NInf"
| "fadd x NInf = NInf"

fun fneg :: "fl \<Rightarrow> fl" where
  "fneg (Fin a) = Fin (- a)"
| "fneg PInf = NInf"
| "fneg NInf = PInf"
| "fneg NaN = NaN"

fun fmul :: "fl \<Rightarrow> fl \<Rightarrow> fl" where
  "fmul NaN y = NaN"
| "fmul x NaN = NaN"
| "fmul (Fin a) (Fin b) = rnd (a * b)"
| "fmul (Fin a) PInf = (if a = 0 then NaN else signed_inf (0 < a))"
| "fmul (Fin a) NInf = (if a = 0 then NaN else signed_inf (a < 0))"
| "fmul PInf (Fin b) = (if b = 0 then NaN else signed_inf (0 < b))"
| "fmul NInf (Fin b) = (if b = 0 then NaN else signed_inf (b < 0))"
| "fmul PInf PInf = PInf"
| "fmul PInf NInf = NInf"
| "fmul NInf PInf = NInf"
| "fmul NInf NInf = PInf"

fun fdiv :: "fl \<Rightarrow> fl \<Rightarrow> fl" where
  "fdiv NaN y = NaN"
| "fdiv x NaN = NaN"
| "fdiv (Fin a) (Fin b) =
     (if b = 0 then (if a = 0 then NaN else signed_inf (0 < a)) else rnd (a / b))"
| "fdiv (Fin a) PInf = Fin 0"
| "fdiv (Fin a) NInf = Fin 0"
| "fdiv PInf (Fin b) = signed_inf (0 \<le> b)"
| "fdiv NInf (Fin b) = signed_inf (b < 0)"
| "fdiv PInf PInf = NaN"
| "fdiv PInf NInf = NaN"
| "fdiv NInf PInf = NaN"
| "fdiv NInf NInf = NaN"

fun fabs :: "fl \<Rightarrow> fl" where
  "fabs (Fin a) = Fin \<bar>a\<bar>"
| "fabs PInf = PInf"
| "fabs NInf = PInf"
| "fabs NaN = NaN"

text \<open>Comparison \<open>x < y\<close> of two floats: false as soon as one of them is NaN.\<close>

fun flt :: "fl \<Rightarrow> fl \<Rightarrow> bool" where
  "flt NaN y = False"
| "flt x NaN = False"
| "flt (Fin a) (Fin b) = (a < b)"
| "flt x NInf = False"
| "flt NInf y = True"
| "flt PInf y = False"
| "flt x PInf = True"

fun isnan :: "fl \<Rightarrow> bool" where
  "isnan NaN = True"
| "isnan x = False"

instantiation fl :: "{zero, one, plus, minus, uminus, times, inverse, abs}"
begin
definition zero_fl :: fl where "zero_fl = Fin 0"
definition one_fl :: fl where "one_fl = Fin 1"
definition plus_fl :: "fl \<Rightarrow> fl \<Rightarrow> fl" where "plus_fl x y = fadd x y"
definition uminus_fl :: "fl \<Rightarrow> fl" where "uminus_fl x = fneg x"
definition minus_fl :: "fl \<Rightarrow> fl \<Rightarrow> fl" where "minus_fl x y = fadd x (fneg y)"
definition times_fl :: "fl \<Rightarrow> fl \<Rightarrow> fl" where "times_fl x y = fmul x y"
definition divide_fl :: "fl \<Rightarrow> fl \<Rightarrow> fl" where "divide_fl x y = fdiv x y"
definition inverse_fl :: "fl \<Rightarrow> fl" where "inverse_fl x = fdiv (Fin 1) x"
definition abs_fl :: "fl \<Rightarrow> fl" where "abs_fl x = fabs x"
instance ..
end

text \<open>
  \<open>x ** 2\<close> on an array, which numpy computes as \<open>x * x\<close>, and \<open>x ** (1 / 2)\<close> on a
  float. The second follows C's \<open>pow\<close>: NaN for a negative finite base, \<open>+inf\<close> for both
  infinities. The functions of the C library (\<open>pow\<close>, \<open>log10\<close>) are taken as rounded
  correctly, like the square root.
\<close>

definition fsquare :: "fl \<Rightarrow> fl" where
  "fsquare x = x * x"

fun fpow_half :: "fl \<Rightarrow> fl" where
  "fpow_half (Fin a) = (if a < 0 then NaN else rnd (sqrt a))"
| "fpow_half PInf = PInf"
| "fpow_half NInf = PInf"
| "fpow_half NaN = NaN"

text \<open>\<open>np.sqrt\<close>: as above, but NaN for \<open>-inf\<close>.\<close>

fun fsqrt :: "fl \<Rightarrow> fl" where
  "fsqrt (Fin a) = (if a < 0 then NaN else rnd (sqrt a))"
| "fsqrt PInf = PInf"
| "fsqrt NInf = NaN"
| "fsqrt NaN = NaN"

text \<open>
  \<open>x ** y\<close> for a float \<open>x\<close> and a finite \<open>y\<close> (C's \<open>pow\<close>): 1 for a zero exponent, the
  real power for a positive base, an integer power for a negative base and an integral
  exponent, NaN for a negative base otherwise; \<open>0 ** y\<close> is 0 for positive \<open>y\<close> and
  \<open>+inf\<close> for negative \<open>y\<close>.
\<close>

fun np_power :: "fl \<Rightarrow> real \<Rightarrow> fl" where
  "np_power (Fin x) y =
     (if y = 0 then Fin 1
      else if 0 < x then rnd (x powr y)
      else if x = 0 then (if 0 < y then Fin 0 else PInf)
      else if y \<in> \<int> then rnd (x powi \<lfloor>y\<rfloor>)
      else NaN)"
| "np_power PInf y = (if y = 0 then Fin 1 else if 0 < y then PInf else Fin 0)"
| "np_power NInf y =
     (if y = 0 then Fin 1
      else if 0 < y then (if y \<in> \<int> \<and> odd \<lfloor>y\<rfloor> then NInf else PInf)
      else Fin 0)"
| "np_power NaN y = (if y = 0 then Fin 1 else NaN)"

text \<open>
  \<open>np.sum\<close> of a float array: numpy adds to 0 the pairwise sum of the array. Fewer
  than 8 numbers are added from the left, starting at 0. Up to 128 numbers are added
  in eight interleaved partial sums, which are then added in pairs, and the at most 7
  numbers left over are added to the result. A longer array is cut at half its
  length, rounded down to a multiple of 8, and the sums of the two parts are added.
\<close>

function add_blocks :: "fl list \<Rightarrow> fl list \<Rightarrow> fl list" where
  "add_blocks r xs =
     (if length xs < 8 then r else add_blocks (map2 (+) r (take 8 xs)) (drop 8 xs))"
  by pat_completeness auto
termination
  by (relation "measure (\<lambda>(r, xs). length xs)") auto

declare add_blocks.simps [simp del]

definition block_sum :: "fl list \<Rightarrow> fl" where
  "block_sum a =
     (let n = length a;
          r = add_blocks (take 8 a) (take (n - n mod 8 - 8) (drop 8 a));
          res = ((r ! 0 + r ! 1) + (r ! 2 + r ! 3)) + ((r ! 4 + r ! 5) + (r ! 6 + r ! 7))
      in foldl (+) res (drop (n - n mod 8) a))"

function pairwise_sum :: "fl list \<Rightarrow> fl" where
  "pairwise_sum a =
     (let n = length a
      in if n < 8 then foldl (+) 0 a
         else if n \<le> 128 then block_sum a
         else (let n2 = n div 2 - (n div 2) mod 8
               in pairwise_sum (take n2 a) + pairwise_sum (drop n2 a)))"
  by pat_completeness auto
termination
  by (relation "measure length") auto

declare pairwise_sum.simps [simp del]

definition np_sum :: "fl list \<Rightarrow> fl" where
  "np_sum xs = 0 + pairwise_sum xs"

section \<open>Python errors\<close>

text \<open>
  An exception is a value: a computation returns \<open>Inl e\<close> when it raises \<open>e\<close> and
  \<open>Inr x\<close> when it returns \<open>x\<close>. \<open>DomainError\<close> and \<open>FitConvergenceError\<close> are errors
  of the specification: the Doppler shift raises the first, and no line of the sources
  raises the second. The others are Python's own.
\<close>

datatype py_error =
  KeyError | ValueError | TypeError | IndexError | UnboundLocalError
  | ZeroDivisionError | OverflowError | RuntimeError | DomainError | FitConvergenceError

definition bindE :: "py_error + 'a \<Rightarrow> ('a \<Rightarrow> py_error + 'b) \<Rightarrow> py_error + 'b" where
  "bindE m f = (case m of Inl e \<Rightarrow> Inl e | Inr x \<Rightarrow> f x)"

text \<open>The results of a list of computations, or the first error from the left.\<close>

fun sequenceE :: "(py_error + 'a) list \<Rightarrow> py_error + 'a list" where
  "sequenceE [] = Inr []"
| "sequenceE (m # ms) = bindE m (\<lambda>x. bindE (sequenceE ms) (\<lambda>xs. Inr (x # xs)))"

text \<open>\<open>xs[i]\<close> for a list or array and a Python integer: a negative index counts from the end.\<close>

definition py_index :: "'a list \<Rightarrow> int \<Rightarrow> py_error + 'a" where
  "py_index xs i =
     (let n = int (length xs); j = (if i < 0 then i + n else i)
      in if 0 \<le> j \<and> j < n then Inr (xs ! nat j) else Inl IndexError)"

text \<open>\<open>xs[idx]\<close> for an array of integer indices \<open>idx\<close>.\<close>

definition take_idx :: "'a list \<Rightarrow> int list \<Rightarrow> py_error + 'a list" where
  "take_idx xs idx = sequenceE (map (py_index xs) idx)"

section \<open>Component models: \<open>star/plot_vpsd_components.py\<close>\<close>

text \<open>
  An entry of \<open>star.vpsd_components\<close>: the type as a string and the coefficients,
  which are floats held in a Python list or in a numpy array. The dictionary is a list
  of its values in insertion order, the order of the loop.
\<close>

record component =
  ctype :: string
  coef_val :: "real list"
  coef_ndarray :: bool

text \<open>
  \<open>c ** 2\<close> for a coefficient: a Python float raises OverflowError when the square is
  out of range, an element of an array gives an infinity.
\<close>

definition coef_square :: "bool \<Rightarrow> real \<Rightarrow> py_error + fl" where
  "coef_square ndarray c =
     (case Fin c * Fin c of
        Fin y \<Rightarrow> Inr (Fin y)
      | z \<Rightarrow> if ndarray then Inr z else Inl OverflowError)"

text \<open>
  The local \<open>vpsd_comp\<close> is a float for a Constant and an array otherwise; it is
  unbound (\<open>None\<close>) until a component of a known type has been seen.
\<close>

datatype npval = Scalar real | Arr "fl list"

text \<open>The three \<open>if\<close> statements of the loop body (lines 35-73), in their order.\<close>

definition eval_component :: "real list \<Rightarrow> component \<Rightarrow> npval option \<Rightarrow> py_error + npval option" where
  "eval_component freq comp_dict vpsd_comp =
     bindE (if ctype comp_dict = ''Constant''
            then bindE (py_index (coef_val comp_dict) 0) (\<lambda>c0. Inr (Some (Scalar c0)))
            else Inr vpsd_comp) (\<lambda>v1.
     bindE (if ctype comp_dict = ''Lorentz''
            then bindE (py_index (coef_val comp_dict) 0) (\<lambda>c0.
                 bindE (py_index (coef_val comp_dict) 1) (\<lambda>c1.
                 bindE (py_index (coef_val comp_dict) 2) (\<lambda>c2.
                 bindE (coef_square (coef_ndarray comp_dict) c1) (\<lambda>c1_sq.
                 Inr (Some (Arr (map (\<lambda>f. Fin c0 * c1_sq / (c1_sq + fsquare (Fin f - Fin c2)))
                                  freq)))))))
            else Inr v1) (\<lambda>v2.
     (if ctype comp_dict = ''Harvey''
            then bindE (py_index (coef_val comp_dict) 0) (\<lambda>c0.
                 bindE (py_index (coef_val comp_dict) 1) (\<lambda>c1.
                 bindE (py_index (coef_val comp_dict) 2) (\<lambda>c2.
                 Inr (Some (Arr (map (\<lambda>f. Fin c0 / (1 + np_power (Fin c1 * Fin f) c2)) freq))))))
            else Inr v2)))"

text \<open>\<open>vpsd_tot += vpsd_comp\<close>: a float is added to every element.\<close>

fun iadd :: "fl list \<Rightarrow> npval \<Rightarrow> fl list" where
  "iadd tot (Scalar c) = map (\<lambda>t. t + Fin c) tot"
| "iadd tot (Arr a) = map2 (+) tot a"

fun loop_components ::
  "real list \<Rightarrow> component list \<Rightarrow> npval option \<Rightarrow> fl list \<Rightarrow> py_error + fl list" where
  "loop_components freq [] vpsd_comp vpsd_tot = Inr vpsd_tot"
| "loop_components freq (comp_dict # comps) vpsd_comp vpsd_tot =
     bindE (eval_component freq comp_dict vpsd_comp) (\<lambda>vc.
       case vc of
         None \<Rightarrow> Inl UnboundLocalError
       | Some v \<Rightarrow> loop_components freq comps vc (iadd vpsd_tot v))"

text \<open>The sum of the components that \<open>plot_vpsd_components\<close> draws as "Total".\<close>

definition components_total :: "real list \<Rightarrow> component list \<Rightarrow> py_error + fl list" where
  "components_total freq comps = loop_components freq comps None (replicate (length freq) 0)"

text \<open>
  The component library in the words of the specification: a component is one of three
  shapes, with its density at a frequency in the arithmetic of the program, and a
  composite adds the densities of its components to 0 in the order of the list.
\<close>

datatype vpsd_component = Constant real | Lorentz real real real | Harvey real real real

fun density :: "vpsd_component \<Rightarrow> real \<Rightarrow> fl" where
  "density (Constant c0) f = Fin c0"
| "density (Lorentz c0 c1 c2) f =
     Fin c0 * fsquare (Fin c1) / (fsquare (Fin c1) + fsquare (Fin f - Fin c2))"
| "density (Harvey c0 c1 c2) f = Fin c0 / (1 + np_power (Fin c1 * Fin f) c2)"

definition composite :: "vpsd_component list \<Rightarrow> real \<Rightarrow> fl" where
  "composite cs f = foldl (+) 0 (map (\<lambda>c. density c f) cs)"

text \<open>The square of the second coefficient of a Lorentz component is in range.\<close>

fun square_in_range :: "vpsd_component \<Rightarrow> bool" where
  "square_in_range (Lorentz c0 c1 c2) = (\<exists>y. fsquare (Fin c1) = Fin y)"
| "square_in_range c = True"

text \<open>How a component of the library is stored in \<open>star.vpsd_components\<close>.\<close>

fun stored :: "bool \<Rightarrow> vpsd_component \<Rightarrow> component" where
  "stored nd (Constant c0) = \<lparr>ctype = ''Constant'', coef_val = [c0], coef_ndarray = nd\<rparr>"
| "stored nd (Lorentz c0 c1 c2) =
     \<lparr>ctype = ''Lorentz'', coef_val = [c0, c1, c2], coef_ndarray = nd\<rparr>"
| "stored nd (Harvey c0 c1 c2) =
     \<lparr>ctype = ''Harvey'', coef_val = [c0, c1, c2], coef_ndarray = nd\<rparr>"

section \<open>Spectral density: \<open>star/compute_vpsd.py\<close>\<close>

text \<open>\<open>np.log10\<close> of a finite number and \<open>10 ** x\<close> of a float.\<close>

definition np_log10 :: "real \<Rightarrow> fl" where
  "np_log10 x = (if 0 < x then rnd (log 10 x) else if x = 0 then NInf else NaN)"

fun np_pow10 :: "fl \<Rightarrow> fl" where
  "np_pow10 (Fin a) = rnd (10 powr a)"
| "np_pow10 PInf = PInf"
| "np_pow10 NInf = Fin 0"
| "np_pow10 NaN = NaN"

text \<open>
  \<open>np.linspace(start, stop, num)\<close> for \<open>num > 1\<close>: the step is \<open>(stop - start) / (num - 1)\<close>,
  point \<open>k\<close> is \<open>k * step + start\<close>, and the last point is set to \<open>stop\<close> itself.
\<close>

definition np_linspace :: "fl \<Rightarrow> fl \<Rightarrow> nat \<Rightarrow> fl list" where
  "np_linspace start stop num =
     (let step = (stop - start) / Fin (real (num - 1))
      in map (\<lambda>k. Fin (real k) * step + start) [0..<num - 1] @ [stop])"

text \<open>\<open>a[flags]\<close> for a boolean array \<open>flags\<close>: the lengths must agree.\<close>

definition np_select :: "'a list \<Rightarrow> bool list \<Rightarrow> py_error + 'a list" where
  "np_select a flags =
     (if length flags = length a then Inr (map fst (filter snd (zip a flags)))
      else Inl IndexError)"

text \<open>\<open>np.delete(a, np.where(flags))\<close>: the elements whose flag is not set.\<close>

definition np_delete :: "'a list \<Rightarrow> bool list \<Rightarrow> 'a list" where
  "np_delete a flags = map fst (filter (\<lambda>(x, d). \<not> d) (zip a flags))"

text \<open>\<open>np.mean\<close> of a non-empty array of finite numbers: the sum divided by the size.\<close>

definition np_mean :: "real list \<Rightarrow> fl" where
  "np_mean xs = np_sum (map Fin xs) / Fin (real (length xs))"

text \<open>The body of the loop over the bins (lines 21-25) for the bin between two edges.\<close>

definition bin_average :: "real list \<Rightarrow> real list \<Rightarrow> fl \<Rightarrow> fl \<Rightarrow> py_error + fl" where
  "bin_average freq vps lo hi =
     bindE (np_select vps (map (\<lambda>f. flt lo (Fin f) \<and> flt (Fin f) hi) freq)) (\<lambda>vps_bin.
       if length vps_bin = 0 then Inr NaN else Inr (np_mean vps_bin))"

text \<open>The dictionary \<open>star.vpsd\<close> that \<open>compute_vpsd\<close> stores.\<close>

record vpsd_dict =
  vpsd_freq :: "real list"
  vpsd_vps :: "real list"
  vpsd_vpsd :: "fl list"
  vpsd_phase :: "real list"
  vpsd_freq_avg :: "fl list"
  vpsd_vps_avg :: "fl list"
  vpsd_vpsd_avg :: "fl list"

text \<open>The 51 bin edges and the 50 bin centres (lines 17-18).\<close>

definition freq_bin_edges :: "real \<Rightarrow> real \<Rightarrow> fl list" where
  "freq_bin_edges f_first f_last =
     map np_pow10 (np_linspace (np_log10 f_first) (np_log10 f_last) 51)"

definition bin_centres :: "fl list \<Rightarrow> fl list" where
  "bin_centres freq_bin = map2 (\<lambda>a b. (a + b) / Fin 2) (tl freq_bin) (butlast freq_bin)"

text \<open>
  \<open>compute_vpsd\<close>, from the tuple that the periodogram returns (line 14; the
  periodogram itself is another module) to the stored dictionary.
\<close>

definition compute_vpsd ::
  "real list \<times> real list \<times> real list \<times> real list \<times> real list \<times> real \<Rightarrow> py_error + vpsd_dict" where
  "compute_vpsd periodogram =
     (case periodogram of (freq, vps, phi, win_freq, win_vps, win_area) \<Rightarrow>
      bindE (py_index freq 0) (\<lambda>f_first.
      bindE (py_index freq (- 1)) (\<lambda>f_last.
      let freq_bin = freq_bin_edges f_first f_last;
          freq_avg = bin_centres freq_bin
      in bindE (sequenceE (map (\<lambda>i. bin_average freq vps (freq_bin ! i) (freq_bin ! (i + 1)))
                  [0..<length freq_avg])) (\<lambda>vps_avg.
      let i_delete = map isnan vps_avg;
          freq_avg = np_delete freq_avg i_delete;
          vps_avg = np_delete vps_avg i_delete;
          vpsd = map (\<lambda>p. Fin p / Fin win_area) vps;
          vpsd_avg = map (\<lambda>p. p / Fin win_area) vps_avg
      in Inr \<lparr>vpsd_freq = freq, vpsd_vps = vps, vpsd_vpsd = vpsd, vpsd_phase = phi,
              vpsd_freq_avg = freq_avg, vpsd_vps_avg = vps_avg, vpsd_vpsd_avg = vpsd_avg\<rparr>))))"


section \<open>Radial velocities: \<open>data.py\<close>\<close>

subsection \<open>Reading the spectra (lines 99-119)\<close>

text \<open>
  The dictionary \<open>self.spec\<close> that \<open>add_spec\<close> stores: every array may be \<open>None\<close>.
  Before \<open>add_spec\<close> is called the dictionary is empty (\<open>None\<close> below). \<open>time\<close> and
  \<open>wave\<close> are arrays of one dimension, the fluxes have one row for each spectrum.
\<close>

record spec_dict =
  spec_time :: "real list option"
  spec_wave :: "real list option"
  spec_flux_val :: "real list list option"
  spec_flux_err :: "real list list option"
  spec_time_unit :: "string option"

text \<open>
  \<open>bool(a)\<close> of an array, from its elements: numpy raises ValueError for an array of
  more than one element; an empty array is false (newer versions raise ValueError
  there too); \<open>None\<close> is false.
\<close>

definition array_bool :: "real list \<Rightarrow> py_error + bool" where
  "array_bool elems =
     (case elems of [] \<Rightarrow> Inr False | [x] \<Rightarrow> Inr (x \<noteq> 0) | x # y # others \<Rightarrow> Inl ValueError)"

definition truth1 :: "real list option \<Rightarrow> py_error + bool" where
  "truth1 a = (case a of None \<Rightarrow> Inr False | Some xs \<Rightarrow> array_bool xs)"

definition truth2 :: "real list list option \<Rightarrow> py_error + bool" where
  "truth2 a = (case a of None \<Rightarrow> Inr False | Some rows \<Rightarrow> array_bool (concat rows))"

text \<open>\<open>a and b\<close>, as a truth value: \<open>b\<close> is looked at only when \<open>a\<close> is true.\<close>

definition py_and :: "py_error + bool \<Rightarrow> py_error + bool \<Rightarrow> py_error + bool" where
  "py_and a b = bindE a (\<lambda>t. if t then b else Inr False)"

text \<open>The condition of line 105, \<open>time and wave and flux_val and flux_err\<close>.\<close>

definition all_given :: "spec_dict \<Rightarrow> py_error + bool" where
  "all_given s = py_and (truth1 (spec_time s)) (py_and (truth1 (spec_wave s))
                  (py_and (truth2 (spec_flux_val s)) (truth2 (spec_flux_err s))))"

text \<open>
  Lines 100-119. A missing key raises KeyError; the test of line 105 raises ValueError;
  the \<open>isinstance\<close> tests raise TypeError for a value that is not an array.
\<close>

definition read_spec ::
  "spec_dict option \<Rightarrow>
   py_error + (real list \<times> real list \<times> real list list \<times> real list list \<times> string option)" where
  "read_spec spec =
     (case spec of
        None \<Rightarrow> Inl KeyError
      | Some s \<Rightarrow>
          bindE (all_given s) (\<lambda>given.
          if \<not> given then Inl ValueError
          else (case (spec_time s, spec_wave s, spec_flux_val s, spec_flux_err s) of
                  (Some time, Some wave, Some flux_val, Some flux_err) \<Rightarrow>
                    Inr (time, wave, flux_val, flux_err, spec_time_unit s)
                | _ \<Rightarrow> Inl TypeError)))"

subsection \<open>Velocity grid and Doppler shift\<close>

text \<open>
  \<open>np.arange(start, stop, step)\<close> for Python floats: \<open>ceil((stop - start) / step)\<close>
  points, none when that is not positive; the division raises for a zero step.
\<close>

definition np_arange :: "real \<Rightarrow> real \<Rightarrow> real \<Rightarrow> py_error + real list" where
  "np_arange start stop step =
     (if step = 0 then Inl ZeroDivisionError
      else Inr (map (\<lambda>k. start + real k * step) [0..<nat \<lceil>(stop - start) / step\<rceil>]))"

text \<open>Line 168.\<close>

definition velocity_grid :: "real list \<Rightarrow> py_error + real list" where
  "velocity_grid vgrid =
     bindE (py_index vgrid 0) (\<lambda>start.
     bindE (py_index vgrid 1) (\<lambda>stop.
     bindE (py_index vgrid 2) (\<lambda>step.
     np_arange start (stop + step / 2) step)))"

text \<open>
  Modelled from the spec: \<open>arve.functions.doppler_shift\<close> is not among the sources.
  Section 4.1 of the specification: elementwise \<open>wavelength * (1 + v / c)\<close>, \<open>v\<close> in
  km/s and \<open>c\<close> the speed of light in km/s; fails with DomainError on an empty
  wavelength array.
\<close>

definition c_light :: real where
  "c_light = 299792.458"

definition doppler_shift :: "real list \<Rightarrow> real \<Rightarrow> py_error + real list" where
  "doppler_shift wave v =
     (if wave = [] then Inl DomainError
      else Inr (map (\<lambda>x. x * (1 + v / c_light)) wave))"

text \<open>Python's \<open>min\<close> and \<open>max\<close> of an array: ValueError when it is empty.\<close>

definition py_min :: "real list \<Rightarrow> py_error + real" where
  "py_min xs = (case xs of [] \<Rightarrow> Inl ValueError | x # rest \<Rightarrow> Inr (fold min rest x))"

definition py_max :: "real list \<Rightarrow> py_error + real" where
  "py_max xs = (case xs of [] \<Rightarrow> Inl ValueError | x # rest \<Rightarrow> Inr (fold max rest x))"

subsection \<open>Selection of the mask lines (lines 170-178)\<close>

definition keep_lines :: "real list \<Rightarrow> real list \<Rightarrow> real list \<Rightarrow> py_error + bool list" where
  "keep_lines wave vrads wc =
     bindE (py_min vrads) (\<lambda>v_lo.
     bindE (doppler_shift wc v_lo) (\<lambda>shift_lo.
     bindE (py_min wave) (\<lambda>wave_lo.
     bindE (py_max vrads) (\<lambda>v_hi.
     bindE (doppler_shift wc v_hi) (\<lambda>shift_hi.
     bindE (py_max wave) (\<lambda>wave_hi.
     Inr (map2 (\<lambda>a b. a > wave_lo \<and> b < wave_hi) shift_lo shift_hi)))))))"

text \<open>\<open>w / np.sum(w)\<close>.\<close>

definition normalize_weights :: "real list \<Rightarrow> fl list" where
  "normalize_weights w = map (\<lambda>x. Fin x / np_sum (map Fin w)) w"

definition filter_mask ::
  "real list \<Rightarrow> real list \<Rightarrow> real list \<Rightarrow> real list \<Rightarrow> py_error + (real list \<times> fl list)" where
  "filter_mask wave vrads wc w =
     bindE (keep_lines wave vrads wc) (\<lambda>idx.
     bindE (np_select wc idx) (\<lambda>wc'.
     bindE (np_select w idx) (\<lambda>w'.
     Inr (wc', normalize_weights w'))))"

subsection \<open>The cross-correlation function (lines 199-217)\<close>

text \<open>
  \<open>np.searchsorted(a, key, side="right")\<close>: the binary search for the first position
  whose element is greater than the key. numpy specifies the result for an array in
  ascending order.
\<close>

function bsearch_right :: "real list \<Rightarrow> real \<Rightarrow> nat \<Rightarrow> nat \<Rightarrow> nat" where
  "bsearch_right a key lo hi =
     (if lo < hi then
        (let mid = lo + (hi - lo) div 2
         in if a ! mid \<le> key then bsearch_right a key (mid + 1) hi
            else bsearch_right a key lo mid)
      else lo)"
  by pat_completeness auto
termination
  by (relation "measure (\<lambda>(a, key, lo, hi). hi - lo)") auto

declare bsearch_right.simps [simp del]

definition searchsorted_right :: "real list \<Rightarrow> real \<Rightarrow> nat" where
  "searchsorted_right a key = bsearch_right a key 0 (length a)"

text \<open>
  The body of the loop over the velocities for spectrum \<open>i\<close>; \<open>w\<close> are the normalised
  weights. The arrays of the source are lists, its elementwise operations are maps.
\<close>

definition ccf_point ::
  "real list \<Rightarrow> real list list \<Rightarrow> real list list \<Rightarrow> nat \<Rightarrow> real list \<Rightarrow> fl list \<Rightarrow> real
   \<Rightarrow> py_error + (fl \<times> fl)" where
  "ccf_point wave flux_val flux_err i wc w v =
     bindE (doppler_shift wc v) (\<lambda>wc_shift.
     let i_r = map (\<lambda>x. int (searchsorted_right wave x)) wc_shift;
         i_l = map (\<lambda>r. r - 1) i_r
     in bindE (take_idx wave i_l) (\<lambda>wave_l.
        bindE (take_idx wave i_r) (\<lambda>wave_r.
        let f_r = map2 (\<lambda>x (a, b). (Fin x - Fin a) / (Fin b - Fin a)) wc_shift (zip wave_l wave_r);
            f_l = map (\<lambda>f. 1 - f) f_r
        in bindE (bindE (py_index flux_val (int i)) (\<lambda>row. take_idx row i_l)) (\<lambda>val_l.
           bindE (bindE (py_index flux_val (int i)) (\<lambda>row. take_idx row i_r)) (\<lambda>val_r.
           let ccf_val = np_sum (map2 (*)
                 (map2 (+) (map2 (\<lambda>y f. Fin y * f) val_l f_l) (map2 (\<lambda>y f. Fin y * f) val_r f_r)) w)
           in bindE (bindE (py_index flux_err (int i)) (\<lambda>row. take_idx row i_l)) (\<lambda>err_l.
              bindE (bindE (py_index flux_err (int i)) (\<lambda>row. take_idx row i_r)) (\<lambda>err_r.
              let ccf_err = fpow_half (np_sum (map2 (*)
                    (map2 (+) (map2 (\<lambda>y f. fsquare (Fin y) * f) err_l f_l)
                              (map2 (\<lambda>y f. fsquare (Fin y) * f) err_r f_r))
                    (map fsquare w)))
              in Inr (ccf_val, ccf_err))))))))"

text \<open>The loop over the velocities: the arrays \<open>ccf_val\<close> and \<open>ccf_err\<close> of spectrum \<open>i\<close>.\<close>

definition ccf_arrays ::
  "real list \<Rightarrow> real list list \<Rightarrow> real list list \<Rightarrow> nat \<Rightarrow> real list \<Rightarrow> fl list \<Rightarrow> real list
   \<Rightarrow> py_error + (fl list \<times> fl list)" where
  "ccf_arrays wave flux_val flux_err i wc w vrads =
     bindE (sequenceE (map (ccf_point wave flux_val flux_err i wc w) vrads)) (\<lambda>points.
     Inr (map fst points, map snd points))"

subsection \<open>Initial guess and fit (lines 219-233)\<close>

text \<open>
  \<open>np.max\<close>, \<open>np.min\<close> and \<open>np.argmin\<close> of an array: ValueError when it is empty; a NaN
  is the maximum and the minimum at once, and \<open>argmin\<close> is the first index of the
  minimum.
\<close>

fun fmax2 :: "fl \<Rightarrow> fl \<Rightarrow> fl" where
  "fmax2 NaN y = NaN"
| "fmax2 x NaN = NaN"
| "fmax2 x y = (if flt x y then y else x)"

fun fmin2 :: "fl \<Rightarrow> fl \<Rightarrow> fl" where
  "fmin2 NaN y = NaN"
| "fmin2 x NaN = NaN"
| "fmin2 x y = (if flt y x then y else x)"

definition np_max :: "fl list \<Rightarrow> py_error + fl" where
  "np_max xs = (case xs of [] \<Rightarrow> Inl ValueError | x # rest \<Rightarrow> Inr (fold fmax2 rest x))"

definition np_min :: "fl list \<Rightarrow> py_error + fl" where
  "np_min xs = (case xs of [] \<Rightarrow> Inl ValueError | x # rest \<Rightarrow> Inr (fold fmin2 rest x))"

fun argmin_from :: "fl list \<Rightarrow> nat \<Rightarrow> fl \<Rightarrow> nat \<Rightarrow> nat" where
  "argmin_from [] i mp best = best"
| "argmin_from (x # xs) i mp best =
     (if isnan mp then best
      else if flt x mp \<or> isnan x then argmin_from xs (i + 1) x i
      else argmin_from xs (i + 1) mp best)"

definition np_argmin :: "fl list \<Rightarrow> py_error + nat" where
  "np_argmin xs = (case xs of [] \<Rightarrow> Inl ValueError | x # rest \<Rightarrow> Inr (argmin_from rest 1 x 0))"

text \<open>\<open>np.where(flags)[0]\<close>: the indices of the flags that are set.\<close>

definition np_where :: "bool list \<Rightarrow> nat list" where
  "np_where flags = map fst (filter snd (zip [0..<length flags] flags))"

text \<open>Lines 220-224: the initial guess \<open>p0 = (C0, a0, b0, c0)\<close>.\<close>

definition initial_guess :: "real list \<Rightarrow> fl list \<Rightarrow> py_error + (fl \<times> fl \<times> real \<times> fl)" where
  "initial_guess vrads ccf_val =
     bindE (np_max ccf_val) (\<lambda>C0.
     bindE (np_min ccf_val) (\<lambda>lowest.
     let a0 = C0 - lowest
     in bindE (np_argmin ccf_val) (\<lambda>k.
        bindE (py_index vrads (int k)) (\<lambda>b0.
        bindE (py_index (np_where (map (\<lambda>y. flt y (C0 - a0 / Fin 2)) ccf_val)) 0) (\<lambda>h.
        bindE (py_index vrads (int h)) (\<lambda>v_half.
        Inr (C0, a0, b0, (Fin b0 - Fin v_half) * Fin 2)))))))"

text \<open>
  \<open>scipy.optimize.curve_fit\<close> applied to the inverted Gaussian is a parameter of the
  model: from the grid, the CCF, its errors and the initial guess it returns the
  fitted \<open>(C, a, b, c)\<close>, or raises (RuntimeError when the optimiser does not converge).
\<close>

type_synonym fitter =
  "real list \<Rightarrow> fl list \<Rightarrow> fl list \<Rightarrow> fl \<times> fl \<times> real \<times> fl \<Rightarrow> py_error + (fl \<times> fl \<times> fl \<times> fl)"

definition fit_gaussian ::
  "fitter \<Rightarrow> real list \<Rightarrow> fl list \<Rightarrow> fl list \<Rightarrow> py_error + (fl \<times> fl \<times> fl \<times> fl)" where
  "fit_gaussian curve_fit vrads ccf_val ccf_err =
     bindE (initial_guess vrads ccf_val) (\<lambda>p0. curve_fit vrads ccf_val ccf_err p0)"

subsection \<open>Error of the radial velocity (lines 237-241)\<close>

text \<open>
  \<open>np.gradient\<close> with unit spacing: one-sided differences at the two ends, central
  differences halved inside; ValueError for fewer than two points.
\<close>

definition np_gradient :: "fl list \<Rightarrow> py_error + fl list" where
  "np_gradient y =
     (let n = length y
      in if n < 2 then Inl ValueError
         else Inr (map (\<lambda>k. if k = 0 then y ! 1 - y ! 0
                            else if k = n - 1 then y ! (n - 1) - y ! (n - 2)
                            else (y ! (k + 1) - y ! (k - 1)) / Fin 2) [0..<n]))"

definition rv_error :: "real list \<Rightarrow> fl list \<Rightarrow> fl list \<Rightarrow> py_error + fl" where
  "rv_error vrads ccf_val ccf_err =
     bindE (np_gradient (map Fin vrads)) (\<lambda>grad_v.
     bindE (np_gradient ccf_val) (\<lambda>grad_ccf.
     Inr (1 / fsqrt (np_sum (map (\<lambda>x. 1 / fsquare \<bar>x\<bar>)
            (map2 (/) (map2 (*) ccf_err grad_v) grad_ccf))))))"

subsection \<open>The loop over the spectra and the whole function\<close>

text \<open>One pass of the loop over the spectra: radial velocity, its error and the FWHM.\<close>

definition analyse_spectrum ::
  "fitter \<Rightarrow> real list \<Rightarrow> real list list \<Rightarrow> real list list \<Rightarrow> nat \<Rightarrow> real list \<Rightarrow> fl list
   \<Rightarrow> real list \<Rightarrow> py_error + (fl \<times> fl \<times> fl)" where
  "analyse_spectrum curve_fit wave flux_val flux_err i wc w vrads =
     bindE (ccf_arrays wave flux_val flux_err i wc w vrads) (\<lambda>(ccf_val, ccf_err).
     bindE (fit_gaussian curve_fit vrads ccf_val ccf_err) (\<lambda>(C, a, b, c).
     bindE (rv_error vrads ccf_val ccf_err) (\<lambda>err.
     Inr (b, err, c))))"

text \<open>What the function stores in \<open>self.vrad\<close> and \<open>self.ccf\<close>.\<close>

record vrad_dict =
  vrad_time :: "real list"
  vrad_val :: "fl list"
  vrad_err :: "fl list"
  vrad_time_unit :: "string option"
  fwhm_val :: "fl list"

text \<open>
  Lines 167-256, after the spectra have been read. The mask file is read outside the
  model: \<open>wc\<close> and \<open>w\<close> are the central wavelengths and the weights of the lines that
  satisfy the criteria (lines 146-165).
\<close>

definition vrad_ccf_body ::
  "fitter \<Rightarrow> real list \<Rightarrow> real list \<Rightarrow> real list list \<Rightarrow> real list list \<Rightarrow> string option
   \<Rightarrow> real list \<Rightarrow> real list \<Rightarrow> real list \<Rightarrow> py_error + vrad_dict" where
  "vrad_ccf_body curve_fit time wave flux_val flux_err time_unit wc w vgrid =
     bindE (velocity_grid vgrid) (\<lambda>vrads.
     bindE (filter_mask wave vrads wc w) (\<lambda>(wc, w).
     bindE (sequenceE (map (\<lambda>i. analyse_spectrum curve_fit wave flux_val flux_err i wc w vrads)
              [0..<length flux_val])) (\<lambda>results.
     Inr \<lparr>vrad_time = time, vrad_val = map fst results, vrad_err = map (fst \<circ> snd) results,
          vrad_time_unit = time_unit, fwhm_val = map (snd \<circ> snd) results\<rparr>)))"

definition compute_vrad_ccf ::
  "fitter \<Rightarrow> spec_dict option \<Rightarrow> real list \<Rightarrow> real list \<Rightarrow> real list \<Rightarrow> py_error + vrad_dict" where
  "compute_vrad_ccf curve_fit spec wc w vgrid =
     bindE (read_spec spec) (\<lambda>(time, wave, flux_val, flux_err, time_unit).
     vrad_ccf_body curve_fit time wave flux_val flux_err time_unit wc w vgrid)"


subsection \<open>Notions of the specification\<close>

text \<open>The index of the first element of a list with a property (the length if there is none).\<close>

definition first_index :: "('a \<Rightarrow> bool) \<Rightarrow> 'a list \<Rightarrow> nat" where
  "first_index P xs = length (takeWhile (\<lambda>x. \<not> P x) xs)"

text \<open>
  The right-insertion index of \<open>x\<close> in an array in ascending order: the number of its
  elements that are not greater than \<open>x\<close>.
\<close>

definition right_insertion :: "real list \<Rightarrow> real \<Rightarrow> nat" where
  "right_insertion a x = length (filter (\<lambda>y. y \<le> x) a)"


text \<open>
  The finite-difference gradient of an array at index \<open>j\<close>, for unit spacing: the
  difference of the two neighbours halved, and the difference to the one neighbour at
  the two ends.
\<close>

definition finite_difference :: "fl list \<Rightarrow> nat \<Rightarrow> fl" where
  "finite_difference y j =
     (if j = 0 then y ! 1 - y ! 0
      else if j = length y - 1 then y ! (length y - 1) - y ! (length y - 2)
      else (y ! (j + 1) - y ! (j - 1)) / Fin 2)"

section \<open>Properties of the numeric model\<close>

lemma rne_of_int [simp]: "rne (of_int k) = k"
  by (simp add: rne_def)

lemma floor_log2I:
  assumes "0 < x" "2 powi n \<le> x" "x < 2 powi (n + 1)"
  shows "\<lfloor>log 2 x\<rfloor> = n"
proof -
  have "(2::real) powr of_int n = 2 powi n" "(2::real) powr (of_int n + 1) = 2 powi (n + 1)"
    using powr_real_of_int' [of "2::real" n] powr_real_of_int' [of "2::real" "n + 1"] by simp_all
  then show ?thesis using assms by (simp add: floor_log_eq_powr_iff)
qed

text \<open>The rounding of a number whose binary exponent \<open>n\<close> is known.\<close>

lemma rnd_eval:
  assumes "x \<noteq> 0" "2 powi n \<le> \<bar>x\<bar>" "\<bar>x\<bar> < 2 powi (n + 1)"
  shows "rnd x = (let u = 2 powi (max n (- 1022) - 52); y = of_int (rne (x / u)) * u
                  in if 2 ^ 1024 \<le> \<bar>y\<bar> then signed_inf (0 < x) else Fin y)"
proof -
  have "\<lfloor>log 2 \<bar>x\<bar>\<rfloor> = n" using assms by (intro floor_log2I) simp_all
  then show ?thesis using assms(1) by (simp add: rnd_def ulp_exponent_def)
qed

text \<open>An integer below \<open>2 ^ 53\<close> in absolute value is a number of the format.\<close>

lemma rnd_int:
  assumes "\<bar>k\<bar> < 2 ^ 53"
  shows "rnd (of_int k) = Fin (of_int k)"
proof (cases "k = 0")
  case True
  then show ?thesis by (simp add: rnd_def)
next
  case False
  define e where "e = \<lfloor>log 2 \<bar>real_of_int k\<bar>\<rfloor>"
  have k1: "1 \<le> \<bar>real_of_int k\<bar>" using False by (simp flip: of_int_abs)
  have k2: "\<bar>real_of_int k\<bar> < 2 ^ 53" using assms by (simp flip: of_int_abs)
  have e0: "0 \<le> e" unfolding e_def using k1 by simp
  have "log 2 \<bar>real_of_int k\<bar> < 53"
    using k1 k2 by (simp add: log_less_iff powr_realpow flip: powr_numeral)
  then have e52: "e \<le> 52" unfolding e_def by (simp add: floor_le_iff)
  define m where "m = nat (52 - e)"
  have u: "(2::real) powi (e - 52) = 1 / 2 ^ m"
    using e52 unfolding m_def by (simp add: power_int_def field_simps)
  have q: "real_of_int k / (1 / 2 ^ m) = of_int (k * 2 ^ m)" by simp
  have y: "real_of_int (k * 2 ^ m) * (1 / 2 ^ m) = of_int k" by simp
  have big: "\<not> (2::real) ^ 1024 \<le> \<bar>real_of_int k\<bar>"
  proof -
    have "(2::real) ^ 53 \<le> 2 ^ 1024" by (rule power_increasing) simp_all
    with k2 show ?thesis by simp
  qed
  have ue: "ulp_exponent (of_int k) = e - 52"
    using e0 by (simp add: ulp_exponent_def e_def)
  show ?thesis
    using False big unfolding rnd_def ue u Let_def q rne_of_int y by simp
qed

lemma rnd_numeral [simp]: "numeral w < (2::int) ^ 53 \<Longrightarrow> rnd (numeral w) = Fin (numeral w)"
  using rnd_int [of "numeral w"] by simp

lemma rnd_neg_numeral [simp]:
  "numeral w < (2::int) ^ 53 \<Longrightarrow> rnd (- numeral w) = Fin (- numeral w)"
  using rnd_int [of "- numeral w"] by simp

lemma rnd_0 [simp]: "rnd 0 = Fin 0"
  by (simp add: rnd_def)

lemma rnd_1 [simp]: "rnd 1 = Fin 1"
  using rnd_int [of 1] by simp

lemma Fin_plus: "Fin a + Fin b = rnd (a + b)"
  by (simp add: plus_fl_def)

lemma Fin_minus: "Fin a - Fin b = rnd (a - b)"
  by (simp add: minus_fl_def)

lemma Fin_times: "Fin a * Fin b = rnd (a * b)"
  by (simp add: times_fl_def)

lemma Fin_divide: "b \<noteq> 0 \<Longrightarrow> Fin a / Fin b = rnd (a / b)"
  by (simp add: divide_fl_def)

lemma zero_plus_Fin: "0 + Fin a = rnd a"
  by (simp add: zero_fl_def Fin_plus)

text \<open>The addition of two floats does not depend on their order.\<close>

lemma fadd_comm: "fadd x y = fadd y x"
  by (cases x; cases y) (simp_all add: add.commute)

lemma np_sum_short: "length xs < 8 \<Longrightarrow> np_sum xs = 0 + foldl (+) 0 xs"
  by (simp add: np_sum_def pairwise_sum.simps)

section \<open>The component library\<close>

lemma coef_square_eq:
  "coef_square nd c1 =
     (if nd \<or> (\<exists>y. fsquare (Fin c1) = Fin y) then Inr (fsquare (Fin c1)) else Inl OverflowError)"
  by (cases "Fin c1 * Fin c1") (simp_all add: coef_square_def fsquare_def)

lemma eval_stored:
  "eval_component freq (stored nd c) vc =
     (if nd \<or> square_in_range c
      then Inr (Some (case c of Constant c0 \<Rightarrow> Scalar c0 | _ \<Rightarrow> Arr (map (density c) freq)))
      else Inl OverflowError)"
  by (cases c) (simp_all add: eval_component_def bindE_def py_index_def coef_square_eq)

lemma iadd_stored:
  "length tot = length freq \<Longrightarrow>
   iadd tot (case c of Constant c0 \<Rightarrow> Scalar c0 | _ \<Rightarrow> Arr (map (density c) freq))
     = map2 (\<lambda>t f. t + density c f) tot freq"
  by (cases c) (auto simp: list_eq_iff_nth_eq)

lemma loop_stored:
  "length tot = length freq \<Longrightarrow>
   loop_components freq (map (stored nd) cs) vc tot
     = (if nd \<or> (\<forall>c\<in>set cs. square_in_range c)
        then Inr (map2 (\<lambda>t f. foldl (+) t (map (\<lambda>c. density c f) cs)) tot freq)
        else Inl OverflowError)"
proof (induction cs arbitrary: vc tot)
  case Nil
  then show ?case
    by (simp add: list_eq_iff_nth_eq)
next
  case (Cons c cs)
  let ?tot = "map2 (\<lambda>t f. t + density c f) tot freq"
  have len: "length ?tot = length freq" using Cons.prems by simp
  show ?case
  proof (cases "nd \<or> square_in_range c")
    case True
    have "map2 (\<lambda>t f. foldl (+) t (map (\<lambda>c. density c f) cs)) ?tot freq
        = map2 (\<lambda>t f. foldl (+) t (map (\<lambda>c. density c f) (c # cs))) tot freq"
      using Cons.prems by (simp add: list_eq_iff_nth_eq)
    then show ?thesis
      using True Cons.prems Cons.IH [OF len]
      by (auto simp: eval_stored bindE_def iadd_stored)
  next
    case False
    then show ?thesis by (simp add: eval_stored bindE_def)
  qed
qed

lemma total_stored:
  "components_total freq (map (stored nd) cs)
     = (if nd \<or> (\<forall>c\<in>set cs. square_in_range c) then Inr (map (composite cs) freq)
        else Inl OverflowError)"
  by (simp add: components_total_def loop_stored composite_def list_eq_iff_nth_eq)

lemma example_composite: "composite [Constant 2, Lorentz 1 1 0] 0 = Fin 3"
  by (simp add: composite_def fsquare_def zero_plus_Fin Fin_plus Fin_minus Fin_times Fin_divide)

text \<open>
  The sum of three components in two orders, in one of which a term is lost to the
  rounding: \<open>10 ^ 16 + 1\<close> is not a number of the format, and its two neighbours
  \<open>10 ^ 16\<close> and \<open>10 ^ 16 + 2\<close> are equally near.
\<close>

lemma rnd_large: "rnd 10000000000000000 = Fin 10000000000000000"
  "rnd (- 10000000000000000) = Fin (- 10000000000000000)"
  "rnd 10000000000000001 = Fin 10000000000000000"
  by (simp_all add: rnd_eval [where n = 53] rne_def)

theorem composite_order_dependent:
  "mset [Constant 10000000000000000, Constant 1, Constant (- 10000000000000000)]
     = mset [Constant 10000000000000000, Constant (- 10000000000000000), Constant 1]
   \<and> composite [Constant 10000000000000000, Constant 1, Constant (- 10000000000000000)] 0 = Fin 0
   \<and> composite [Constant 10000000000000000, Constant (- 10000000000000000), Constant 1] 0 = Fin 1
   \<and> components_total [0]
        (map (stored False) [Constant 10000000000000000, Constant 1, Constant (- 10000000000000000)])
       = Inr [Fin 0]
   \<and> components_total [0]
        (map (stored False) [Constant 10000000000000000, Constant (- 10000000000000000), Constant 1])
       = Inr [Fin 1]"
proof -
  have a: "composite [Constant 10000000000000000, Constant 1, Constant (- 10000000000000000)] 0 = Fin 0"
    by (simp add: composite_def zero_plus_Fin Fin_plus rnd_large)
  have b: "composite [Constant 10000000000000000, Constant (- 10000000000000000), Constant 1] 0 = Fin 1"
    by (simp add: composite_def zero_plus_Fin Fin_plus rnd_large)
  have m: "mset [Constant 10000000000000000, Constant 1, Constant (- 10000000000000000)]
     = mset [Constant 10000000000000000, Constant (- 10000000000000000), Constant 1]"
    by simp
  have c: "components_total [0]
        (map (stored False) [Constant 10000000000000000, Constant 1, Constant (- 10000000000000000)])
       = Inr [Fin 0]"
    unfolding total_stored by (simp add: a)
  have d: "components_total [0]
        (map (stored False) [Constant 10000000000000000, Constant (- 10000000000000000), Constant 1])
       = Inr [Fin 1]"
    unfolding total_stored by (simp add: b)
  from m a b c d show ?thesis by blast
qed

text \<open>
  C7, as amended. A Constant has the density \<open>c0\<close>, a Lorentz
  \<open>c0 c1\<^sup>2 / (c1\<^sup>2 + (f - c2)\<^sup>2)\<close> and a Harvey \<open>c0 / (1 + (c1 f) ** c2)\<close>, every operation
  rounded; the total that the code accumulates over the stored components is, at every
  frequency, the sum of these densities added to 0 one after the other in the order of
  the list (with coefficients that are Python floats, a Lorentz component whose \<open>c1\<^sup>2\<close>
  is out of range raises OverflowError instead); Constant(2) with Lorentz(1,1,0) gives
  3 at \<open>f = 0\<close>.
\<close>

theorem composite_in_list_order:
  "components_total freq (map (stored nd) cs)
     = (if nd \<or> (\<forall>c\<in>set cs. square_in_range c) then Inr (map (composite cs) freq)
        else Inl OverflowError)
   \<and> composite [] f = 0
   \<and> composite (cs @ [c]) f = composite cs f + density c f
   \<and> density (Constant c0) f = Fin c0
   \<and> density (Lorentz c0 c1 c2) f
       = Fin c0 * (Fin c1 * Fin c1) / (Fin c1 * Fin c1 + (Fin f - Fin c2) * (Fin f - Fin c2))
   \<and> density (Harvey c0 c1 c2) f = Fin c0 / (1 + np_power (Fin c1 * Fin f) c2)
   \<and> composite [Constant 2, Lorentz 1 1 0] 0 = Fin 3"
  by (simp add: total_stored example_composite) (simp add: composite_def fsquare_def)

theorem composite_in_list_order_witness:
  "components_total [0] (map (stored False) [Constant 2, Lorentz 1 1 0]) = Inr [Fin 3]
   \<and> components_total [0] (map (stored True) [Constant 2, Lorentz 1 1 0]) = Inr [Fin 3]"
proof -
  have r: "\<forall>c\<in>set [Constant 2, Lorentz 1 1 0]. square_in_range c"
    by (simp add: fsquare_def Fin_times)
  have e: "map (composite [Constant 2, Lorentz 1 1 0]) [0] = [Fin 3]"
    using composite_in_list_order [of "[0]" False "[]" 0 "Constant 0" 0 0 0] by simp
  from composite_in_list_order [of "[0]" False "[Constant 2, Lorentz 1 1 0]" 0 "Constant 0" 0 0 0] r e
  have "components_total [0] (map (stored False) [Constant 2, Lorentz 1 1 0]) = Inr [Fin 3]"
    by simp
  moreover
  from composite_in_list_order [of "[0]" True "[Constant 2, Lorentz 1 1 0]" 0 "Constant 0" 0 0 0] e
  have "components_total [0] (map (stored True) [Constant 2, Lorentz 1 1 0]) = Inr [Fin 3]"
    by simp
  ultimately show ?thesis by blast
qed

section \<open>Reading the spectra\<close>

lemma array_bool_cases:
  "array_bool xs = Inl ValueError \<or> array_bool xs = Inr False \<or> array_bool xs = Inr True"
  by (auto simp: array_bool_def split: list.splits)

lemma array_bool_True: "array_bool xs = Inr True \<longleftrightarrow> (\<exists>x. xs = [x] \<and> x \<noteq> 0)"
  by (auto simp: array_bool_def split: list.splits)

lemma truth1_cases:
  "truth1 a = Inl ValueError \<or> truth1 a = Inr False \<or> (truth1 a = Inr True \<and> a \<noteq> None)"
  using array_bool_cases by (cases a) (auto simp: truth1_def)

lemma truth2_cases:
  "truth2 a = Inl ValueError \<or> truth2 a = Inr False \<or> (truth2 a = Inr True \<and> a \<noteq> None)"
  using array_bool_cases by (cases a) (auto simp: truth2_def)

lemma py_and_True: "py_and a b = Inr True \<longleftrightarrow> a = Inr True \<and> b = Inr True"
  by (cases a) (auto simp: py_and_def bindE_def)

lemma truth1_True: "truth1 a = Inr True \<longleftrightarrow> (\<exists>xs. a = Some xs \<and> array_bool xs = Inr True)"
  by (cases a) (simp_all add: truth1_def)

lemma truth2_True:
  "truth2 a = Inr True \<longleftrightarrow> (\<exists>rows. a = Some rows \<and> array_bool (concat rows) = Inr True)"
  by (cases a) (simp_all add: truth2_def)

lemma all_given_True:
  "all_given s = Inr True \<longleftrightarrow>
     (\<exists>time wave flux_val flux_err. spec_time s = Some time \<and> spec_wave s = Some wave
        \<and> spec_flux_val s = Some flux_val \<and> spec_flux_err s = Some flux_err
        \<and> array_bool time = Inr True \<and> array_bool wave = Inr True
        \<and> array_bool (concat flux_val) = Inr True \<and> array_bool (concat flux_err) = Inr True)"
  unfolding all_given_def py_and_True truth1_True truth2_True by blast

lemma read_spec_missing:
  assumes "spec_time s = None \<or> spec_wave s = None \<or> spec_flux_val s = None
             \<or> spec_flux_err s = None"
  shows "read_spec (Some s) = Inl ValueError"
  using assms truth1_cases [of "spec_time s"] truth1_cases [of "spec_wave s"]
    truth2_cases [of "spec_flux_val s"] truth2_cases [of "spec_flux_err s"]
  by (auto simp: read_spec_def all_given_def py_and_def bindE_def)

lemma read_spec_long_time:
  assumes "spec_time s = Some (t1 # t2 # ts)"
  shows "all_given s = Inl ValueError" and "read_spec (Some s) = Inl ValueError"
  using assms
  by (simp_all add: read_spec_def all_given_def py_and_def truth1_def array_bool_def bindE_def)

text \<open>
  C8. The check of the spectra at four inputs, whatever the mask, the grid and the
  fitter are. Before \<open>add_spec\<close> is called, the lookup of line 101 raises KeyError. For
  two spectra of three points without \<open>flux_err\<close>, the condition of line 105 itself
  raises ValueError, for the truth value of the array \<open>time\<close>, and line 107 is not
  reached; the same spectra with \<open>flux_err\<close> given are rejected with the same error. The
  condition is evaluated, and the error of line 107 raised for a missing array, only
  when the arrays before it have one element.
\<close>

theorem spectra_check_at_line_105:
  "compute_vrad_ccf curve_fit None wc w vgrid = Inl KeyError
   \<and> all_given \<lparr>spec_time = Some [1, 2], spec_wave = Some [5000, 5001, 5002],
        spec_flux_val = Some [[1, 1, 1], [1, 1, 1]], spec_flux_err = None,
        spec_time_unit = None\<rparr> = Inl ValueError
   \<and> compute_vrad_ccf curve_fit
        (Some \<lparr>spec_time = Some [1, 2], spec_wave = Some [5000, 5001, 5002],
          spec_flux_val = Some [[1, 1, 1], [1, 1, 1]], spec_flux_err = None,
          spec_time_unit = None\<rparr>) wc w vgrid = Inl ValueError
   \<and> all_given \<lparr>spec_time = Some [1, 2], spec_wave = Some [5000, 5001, 5002],
        spec_flux_val = Some [[1, 1, 1], [1, 1, 1]],
        spec_flux_err = Some [[1, 1, 1], [1, 1, 1]], spec_time_unit = None\<rparr> = Inl ValueError
   \<and> compute_vrad_ccf curve_fit
        (Some \<lparr>spec_time = Some [1, 2], spec_wave = Some [5000, 5001, 5002],
          spec_flux_val = Some [[1, 1, 1], [1, 1, 1]],
          spec_flux_err = Some [[1, 1, 1], [1, 1, 1]], spec_time_unit = None\<rparr>) wc w vgrid
       = Inl ValueError
   \<and> all_given \<lparr>spec_time = Some [1], spec_wave = Some [5000], spec_flux_val = Some [[1]],
        spec_flux_err = None, spec_time_unit = None\<rparr> = Inr False
   \<and> compute_vrad_ccf curve_fit
        (Some \<lparr>spec_time = Some [1], spec_wave = Some [5000], spec_flux_val = Some [[1]],
          spec_flux_err = None, spec_time_unit = None\<rparr>) wc w vgrid = Inl ValueError"
  by (simp add: compute_vrad_ccf_def read_spec_def all_given_def py_and_def truth1_def
      truth2_def array_bool_def bindE_def)

section \<open>Sorted search and the selection of the mask lines\<close>


lemma c_light_pos: "0 < c_light"
  by (simp add: c_light_def)

lemma py_min_eq: "py_min xs = (if xs = [] then Inl ValueError else Inr (Min (set xs)))"
proof (cases xs)
  case Nil
  then show ?thesis by (simp add: py_min_def)
next
  case (Cons x rest)
  have "py_min (x # rest) = Inr (Min (set (x # rest)))"
    by (simp only: py_min_def list.case Min.set_eq_fold)
  with Cons show ?thesis by simp
qed

lemma py_max_eq: "py_max xs = (if xs = [] then Inl ValueError else Inr (Max (set xs)))"
proof (cases xs)
  case Nil
  then show ?thesis by (simp add: py_max_def)
next
  case (Cons x rest)
  have "py_max (x # rest) = Inr (Max (set (x # rest)))"
    by (simp only: py_max_def list.case Max.set_eq_fold)
  with Cons show ?thesis by simp
qed

lemma bsearch_right_bracket:
  assumes "lo \<le> hi" "hi \<le> length a"
    and "lo = 0 \<or> a ! (lo - 1) \<le> key"
    and "hi = length a \<or> key < a ! hi"
  shows "lo \<le> bsearch_right a key lo hi \<and> bsearch_right a key lo hi \<le> hi
         \<and> (bsearch_right a key lo hi = 0 \<or> a ! (bsearch_right a key lo hi - 1) \<le> key)
         \<and> (bsearch_right a key lo hi = length a \<or> key < a ! bsearch_right a key lo hi)"
  using assms
proof (induction a key lo hi rule: bsearch_right.induct)
  case (1 a key lo hi)
  show ?case
  proof (cases "lo < hi")
    case False
    then have eq: "bsearch_right a key lo hi = lo"
      by (subst bsearch_right.simps) simp
    from "1.prems" False have "lo = hi" by simp
    with "1.prems" show ?thesis unfolding eq by auto
  next
    case True
    define mid where "mid = lo + (hi - lo) div 2"
    have m: "lo \<le> mid" "mid < hi" using True by (auto simp: mid_def)
    show ?thesis
    proof (cases "a ! mid \<le> key")
      case le: True
      have eq: "bsearch_right a key lo hi = bsearch_right a key (mid + 1) hi"
        using True le by (subst bsearch_right.simps) (simp add: mid_def Let_def)
      define r where "r = bsearch_right a key (mid + 1) hi"
      have p: "mid + 1 \<le> hi" "hi \<le> length a" "mid + 1 = 0 \<or> a ! (mid + 1 - 1) \<le> key"
        "hi = length a \<or> key < a ! hi"
        using m le "1.prems" by simp_all
      have "mid + 1 \<le> r \<and> r \<le> hi \<and> (r = 0 \<or> a ! (r - 1) \<le> key)
         \<and> (r = length a \<or> key < a ! r)"
        unfolding r_def by (rule "1.IH"(1) [OF True mid_def le p])
      then have "lo \<le> r \<and> r \<le> hi \<and> (r = 0 \<or> a ! (r - 1) \<le> key)
         \<and> (r = length a \<or> key < a ! r)"
        using m by linarith
      then show ?thesis unfolding eq r_def .
    next
      case gt: False
      have eq: "bsearch_right a key lo hi = bsearch_right a key lo mid"
        using True gt by (subst bsearch_right.simps) (simp add: mid_def Let_def)
      define r where "r = bsearch_right a key lo mid"
      have p: "lo \<le> mid" "mid \<le> length a" "lo = 0 \<or> a ! (lo - 1) \<le> key"
        "mid = length a \<or> key < a ! mid"
        using m gt "1.prems" by simp_all
      have "lo \<le> r \<and> r \<le> mid \<and> (r = 0 \<or> a ! (r - 1) \<le> key)
         \<and> (r = length a \<or> key < a ! r)"
        unfolding r_def by (rule "1.IH"(2) [OF True mid_def gt p])
      then have "lo \<le> r \<and> r \<le> hi \<and> (r = 0 \<or> a ! (r - 1) \<le> key)
         \<and> (r = length a \<or> key < a ! r)"
        using m by linarith
      then show ?thesis unfolding eq r_def .
    qed
  qed
qed

lemma searchsorted_right_bracket:
  "(searchsorted_right a key = 0 \<or> a ! (searchsorted_right a key - 1) \<le> key)
   \<and> (searchsorted_right a key = length a \<or> key < a ! searchsorted_right a key)
   \<and> searchsorted_right a key \<le> length a"
proof -
  have "0 \<le> length a" "length a \<le> length a" "(0::nat) = 0 \<or> a ! (0 - 1) \<le> key"
    "length a = length a \<or> key < a ! length a"
    by simp_all
  from bsearch_right_bracket [OF this] show ?thesis
    unfolding searchsorted_right_def by blast
qed


lemma sorted_Min_nth: "sorted xs \<Longrightarrow> xs \<noteq> [] \<Longrightarrow> Min (set xs) = xs ! 0"
  by (cases xs) (auto intro!: Min_eqI)

lemma sorted_Max_nth: "sorted xs \<Longrightarrow> xs \<noteq> [] \<Longrightarrow> Max (set xs) = xs ! (length xs - 1)"
proof -
  assume s: "sorted xs" and n: "xs \<noteq> []"
  have "\<And>y. y \<in> set xs \<Longrightarrow> y \<le> xs ! (length xs - 1)"
  proof -
    fix y assume "y \<in> set xs"
    then obtain i where "i < length xs" "y = xs ! i" by (auto simp: in_set_conv_nth)
    with s show "y \<le> xs ! (length xs - 1)" by (auto intro: sorted_nth_mono)
  qed
  moreover have "xs ! (length xs - 1) \<in> set xs" using n by simp
  ultimately show ?thesis by (intro Max_eqI) auto
qed

text \<open>Whether the selection of lines 171-173 keeps a line with central wavelength \<open>x\<close>.\<close>

lemma keep_lines_eq:
  "keep_lines wave vrads wc =
     (if vrads = [] then Inl ValueError
      else if wc = [] then Inl DomainError
      else if wave = [] then Inl ValueError
      else Inr (map (\<lambda>x. x * (1 + Min (set vrads) / c_light) > Min (set wave)
                        \<and> x * (1 + Max (set vrads) / c_light) < Max (set wave)) wc))"
  by (auto simp: keep_lines_def py_min_eq py_max_eq doppler_shift_def bindE_def zip_map_map
      intro!: nth_equalityI)

lemma np_select_map: "np_select xs (map P xs) = Inr (filter P xs)"
proof -
  have "map fst (filter snd (zip xs (map P xs))) = filter P xs"
    by (induction xs) auto
  then show ?thesis by (simp add: np_select_def)
qed

lemma filter_mask_eq:
  assumes "vrads \<noteq> []" "wc \<noteq> []" "wave \<noteq> []" "length w = length wc"
  shows "filter_mask wave vrads wc w =
     Inr (filter (\<lambda>x. x * (1 + Min (set vrads) / c_light) > Min (set wave)
                        \<and> x * (1 + Max (set vrads) / c_light) < Max (set wave)) wc,
          normalize_weights (map snd (filter (\<lambda>(x, y). x * (1 + Min (set vrads) / c_light) > Min (set wave)
                        \<and> x * (1 + Max (set vrads) / c_light) < Max (set wave)) (zip wc w))))"
proof -
  let ?P = "\<lambda>x. x * (1 + Min (set vrads) / c_light) > Min (set wave)
                        \<and> x * (1 + Max (set vrads) / c_light) < Max (set wave)"
  have k: "keep_lines wave vrads wc = Inr (map ?P wc)"
    using assms by (simp add: keep_lines_eq)
  have "map fst (filter snd (zip w (map ?P wc))) = map snd (filter (\<lambda>(x, y). ?P x) (zip wc w))"
    using assms(4) by (induction wc w rule: list_induct2') auto
  then have "np_select w (map ?P wc) = Inr (map snd (filter (\<lambda>(x, y). ?P x) (zip wc w)))"
    using assms(4) by (simp add: np_select_def)
  then show ?thesis
    by (simp add: filter_mask_def k bindE_def np_select_map)
qed

lemma filter_mask_kept:
  assumes "filter_mask wave vrads wc w = Inr (wc', w')" and "x \<in> set wc'"
  shows "vrads \<noteq> [] \<and> wave \<noteq> [] \<and> x \<in> set wc
         \<and> x * (1 + Min (set vrads) / c_light) > Min (set wave)
         \<and> x * (1 + Max (set vrads) / c_light) < Max (set wave)"
proof -
  from assms(1) obtain idx where k: "keep_lines wave vrads wc = Inr idx"
    and s: "np_select wc idx = Inr wc'"
    by (auto simp: filter_mask_def bindE_def split: sum.splits)
  from k have n: "vrads \<noteq> []" "wc \<noteq> []" "wave \<noteq> []"
    by (auto simp: keep_lines_eq split: if_splits)
  with k s have "wc' = filter (\<lambda>x. x * (1 + Min (set vrads) / c_light) > Min (set wave)
                        \<and> x * (1 + Max (set vrads) / c_light) < Max (set wave)) wc"
    by (auto simp: keep_lines_eq np_select_map)
  with assms(2) n show ?thesis by auto
qed

lemma doppler_mono:
  assumes "0 < x" "u \<le> v"
  shows "x * (1 + u / c_light) \<le> x * (1 + v / c_light)"
  using assms c_light_pos by (simp add: divide_right_mono)

text \<open>
  C9. For a wavelength array in ascending order and positive central wavelengths, a
  line that the selection keeps has, at every velocity of the grid, a right-insertion
  index \<open>i_r\<close> with \<open>1 \<le> i_r \<le> len(wave) - 1\<close>: the indices \<open>i_r - 1\<close> and \<open>i_r\<close> are in
  bounds in every array as long as \<open>wave\<close>, and \<open>wave[i_r] - wave[i_r - 1]\<close> is not zero.
  (The array need not be strictly increasing nor positive.)
\<close>

theorem retained_lines_in_bounds:
  assumes "filter_mask wave vrads wc w = Inr (wc', w')"
    and "sorted wave" and "\<forall>x\<in>set wc. 0 < x"
    and "x \<in> set wc'" and "v \<in> set vrads"
  shows "let i_r = searchsorted_right wave (x * (1 + v / c_light)) in
           1 \<le> i_r \<and> i_r \<le> length wave - 1
           \<and> wave ! i_r - wave ! (i_r - 1) \<noteq> 0
           \<and> (\<forall>row. length row = length wave \<longrightarrow>
                 py_index row (int i_r - 1) = Inr (row ! (i_r - 1))
                 \<and> py_index row (int i_r) = Inr (row ! i_r))"
proof -
  let ?key = "x * (1 + v / c_light)"
  let ?r = "searchsorted_right wave ?key"
  from filter_mask_kept [OF assms(1,4)] have n: "vrads \<noteq> []" "wave \<noteq> []" and xin: "x \<in> set wc"
    and lo: "x * (1 + Min (set vrads) / c_light) > Min (set wave)"
    and hi: "x * (1 + Max (set vrads) / c_light) < Max (set wave)"
    by simp_all
  from xin assms(3) have xpos: "0 < x" by simp
  have mm: "Min (set vrads) \<le> v" "v \<le> Max (set vrads)"
    using assms(5) by simp_all
  have "x * (1 + Min (set vrads) / c_light) \<le> ?key" "?key \<le> x * (1 + Max (set vrads) / c_light)"
    by (rule doppler_mono [OF xpos mm(1)], rule doppler_mono [OF xpos mm(2)])
  with lo hi have b: "wave ! 0 < ?key" "?key < wave ! (length wave - 1)"
    using sorted_Min_nth [OF assms(2) n(2)] sorted_Max_nth [OF assms(2) n(2)] by simp_all
  have br: "(?r = 0 \<or> wave ! (?r - 1) \<le> ?key) \<and> (?r = length wave \<or> ?key < wave ! ?r) \<and> ?r \<le> length wave"
    by (rule searchsorted_right_bracket)
  have r0: "?r \<noteq> 0"
  proof
    assume "?r = 0"
    with br n(2) have "?key < wave ! 0" by auto
    with b show False by simp
  qed
  have rn: "?r \<noteq> length wave"
  proof
    assume "?r = length wave"
    with br r0 have "wave ! (length wave - 1) \<le> ?key" by auto
    with b show False by simp
  qed
  from br r0 rn have f: "1 \<le> ?r" "?r \<le> length wave - 1" "wave ! (?r - 1) \<le> ?key" "?key < wave ! ?r"
    by auto
  then have d: "wave ! ?r - wave ! (?r - 1) \<noteq> 0" by simp
  have "py_index row (int ?r - 1) = Inr (row ! (?r - 1)) \<and> py_index row (int ?r) = Inr (row ! ?r)"
    if "length row = length wave" for row :: "'a list"
  proof -
    from f that rn br have "?r < length row" "1 \<le> ?r" by auto
    then show ?thesis
      by (auto simp: py_index_def Let_def nat_diff_distrib' of_nat_diff)
  qed
  with f d show ?thesis
    unfolding Let_def by blast
qed

theorem retained_lines_in_bounds_witness:
  "filter_mask [5000, 5001, 5002, 5003] [- 20, 0, 20] [50015 / 10, 6000] [1, 3]
     = Inr ([50015 / 10], [Fin 1])
   \<and> (let i_r = searchsorted_right [5000, 5001, 5002, 5003] (50015 / 10 * (1 + 20 / c_light)) in
         1 \<le> i_r \<and> i_r \<le> length [5000, 5001, 5002, 5003 :: real] - 1
         \<and> [5000, 5001, 5002, 5003 :: real] ! i_r - [5000, 5001, 5002, 5003] ! (i_r - 1) \<noteq> 0
         \<and> py_index [1, 1 / 2, 1, 1 :: real] (int i_r - 1) = Inr ([1, 1 / 2, 1, 1] ! (i_r - 1))
         \<and> py_index [1, 1 / 2, 1, 1 :: real] (int i_r) = Inr ([1, 1 / 2, 1, 1] ! i_r))"
proof -
  let ?W = "[5000, 5001, 5002, 5003 :: real]"
  let ?F = "[1, 1 / 2, 1, 1 :: real]"
  let ?r = "searchsorted_right ?W (50015 / 10 * (1 + 20 / c_light))"
  have fm: "filter_mask ?W [- 20, 0, 20] [50015 / 10, 6000] [1, 3] = Inr ([50015 / 10], [Fin 1])"
    by (simp add: filter_mask_eq normalize_weights_def np_sum_short zero_plus_Fin Fin_plus
        Fin_divide c_light_def)
  have s: "sorted ?W" by simp
  have p: "\<forall>x\<in>set [50015 / 10, 6000 :: real]. 0 < x" by simp
  have m: "(50015 / 10 :: real) \<in> set [50015 / 10]" "(20 :: real) \<in> set [- 20, 0, 20]"
    by simp_all
  note r = retained_lines_in_bounds [OF fm s p m, unfolded Let_def]
  from r have a: "1 \<le> ?r" "?r \<le> length ?W - 1" "?W ! ?r - ?W ! (?r - 1) \<noteq> 0"
    by blast+
  from r have "\<forall>row :: real list. length row = length ?W \<longrightarrow>
      py_index row (int ?r - 1) = Inr (row ! (?r - 1)) \<and> py_index row (int ?r) = Inr (row ! ?r)"
    by blast
  then have c: "py_index ?F (int ?r - 1) = Inr (?F ! (?r - 1))" "py_index ?F (int ?r) = Inr (?F ! ?r)"
    by simp_all
  from fm a c show ?thesis
    unfolding Let_def by blast
qed

section \<open>A mask outside the spectrum\<close>


lemma read_spec_Inr:
  assumes "read_spec spec = Inr (time, wave, flux_val, flux_err, tu)"
  shows "\<exists>s. spec = Some s \<and> spec_time s = Some time \<and> spec_wave s = Some wave
        \<and> spec_flux_val s = Some flux_val \<and> spec_flux_err s = Some flux_err \<and> spec_time_unit s = tu
        \<and> array_bool time = Inr True \<and> array_bool wave = Inr True
        \<and> array_bool (concat flux_val) = Inr True \<and> array_bool (concat flux_err) = Inr True"
proof (cases spec)
  case None
  with assms show ?thesis by (simp add: read_spec_def)
next
  case (Some s)
  from assms have g: "all_given s = Inr True"
    unfolding Some read_spec_def by (auto simp: bindE_def split: sum.splits if_splits)
  then obtain t w fv fe where f: "spec_time s = Some t" "spec_wave s = Some w"
      "spec_flux_val s = Some fv" "spec_flux_err s = Some fe"
      "array_bool t = Inr True" "array_bool w = Inr True"
      "array_bool (concat fv) = Inr True" "array_bool (concat fe) = Inr True"
    unfolding all_given_True by blast
  from assms g f have "t = time" "w = wave" "fv = flux_val" "fe = flux_err" "spec_time_unit s = tu"
    unfolding Some read_spec_def by (simp_all add: bindE_def)
  with f Some show ?thesis by simp
qed

lemma sequenceE_first_error:
  assumes "ms \<noteq> []" and "hd ms = Inl e"
  shows "sequenceE ms = Inl e"
  using assms by (cases ms) (simp_all add: bindE_def)

lemma ccf_point_empty: "ccf_point wave flux_val flux_err i [] w v = Inl DomainError"
  by (simp add: ccf_point_def doppler_shift_def bindE_def)

lemma ccf_arrays_empty:
  assumes "vrads \<noteq> []"
  shows "ccf_arrays wave flux_val flux_err i [] w vrads = Inl DomainError"
proof -
  have "sequenceE (map (ccf_point wave flux_val flux_err i [] w) vrads) = Inl DomainError"
    using assms by (intro sequenceE_first_error) (simp_all add: hd_map ccf_point_empty)
  then show ?thesis by (simp add: ccf_arrays_def bindE_def)
qed

lemma analyse_spectrum_empty:
  assumes "vrads \<noteq> []"
  shows "analyse_spectrum curve_fit wave flux_val flux_err i [] w vrads = Inl DomainError"
  using assms by (simp add: analyse_spectrum_def ccf_arrays_empty bindE_def)

lemma filter_mask_drops_all:
  assumes "vrads \<noteq> []" and "wave \<noteq> []" and "wc \<noteq> []"
    and "length w = length wc"
    and "\<forall>x\<in>set wc. \<not> (x * (1 + Min (set vrads) / c_light) > Min (set wave)
                         \<and> x * (1 + Max (set vrads) / c_light) < Max (set wave))"
  shows "filter_mask wave vrads wc w = Inr ([], [])"
proof -
  let ?P = "\<lambda>x. x * (1 + Min (set vrads) / c_light) > Min (set wave)
                         \<and> x * (1 + Max (set vrads) / c_light) < Max (set wave)"
  have e1: "filter ?P wc = []"
    using assms(5) by (auto simp: filter_empty_conv)
  from assms(5) have e2: "filter (\<lambda>(x, y). ?P x) (zip wc w) = []"
    by (auto simp: filter_empty_conv dest: set_zip_leftD)
  show ?thesis
    using filter_mask_eq [OF assms(1,3,2,4)] e1 e2
    by (simp add: normalize_weights_def)
qed

lemma body_empty_mask:
  assumes "velocity_grid vgrid = Inr vrads" and "vrads \<noteq> []" and "wave \<noteq> []"
    and "length w = length wc"
    and "\<forall>x\<in>set wc. \<not> (x * (1 + Min (set vrads) / c_light) > Min (set wave)
                         \<and> x * (1 + Max (set vrads) / c_light) < Max (set wave))"
    and "flux_val \<noteq> []"
  shows "vrad_ccf_body curve_fit time wave flux_val flux_err tu wc w vgrid = Inl DomainError"
proof (cases "wc = []")
  case True
  then have "filter_mask wave vrads wc w = Inl DomainError"
    using assms(2) by (simp add: filter_mask_def keep_lines_eq bindE_def)
  then show ?thesis
    by (simp add: vrad_ccf_body_def assms(1) bindE_def)
next
  case False
  have fm: "filter_mask wave vrads wc w = Inr ([], [])"
    by (rule filter_mask_drops_all [OF assms(2,3) False assms(4,5)])
  have "[0..<length flux_val] \<noteq> []" using assms(6) by simp
  moreover have "hd (map (\<lambda>i. analyse_spectrum curve_fit wave flux_val flux_err i [] [] vrads)
        [0..<length flux_val]) = Inl DomainError"
    using assms(2,6) by (simp add: hd_map analyse_spectrum_empty)
  ultimately have "sequenceE (map (\<lambda>i. analyse_spectrum curve_fit wave flux_val flux_err i [] [] vrads)
        [0..<length flux_val]) = Inl DomainError"
    by (intro sequenceE_first_error) simp_all
  then show ?thesis
    by (simp add: vrad_ccf_body_def assms(1) fm bindE_def)
qed

text \<open>
  C5. Two spectra of four points between 5000 and 5003 and a mask of two lines, at
  4000 and 6000, with the grid of velocities - 20, 0 and 20 km/s. The selection of
  lines 170-178 drops both lines and raises nothing. The function fails with
  ValueError, raised by the condition of line 105 before the mask is read. The part
  of the function after the check of the spectra fails with DomainError, raised by
  the first Doppler shift inside the loop over the spectra (line 201); without a
  spectrum that part returns.
\<close>

theorem mask_outside_spectrum:
  "filter_mask [5000, 5001, 5002, 5003] [- 20, 0, 20] [6000, 4000] [1, 1] = Inr ([], [])
   \<and> compute_vrad_ccf curve_fit
        (Some \<lparr>spec_time = Some [1, 2], spec_wave = Some [5000, 5001, 5002, 5003],
          spec_flux_val = Some [[1, 1, 1, 1], [1, 1, 1, 1]],
          spec_flux_err = Some [[1, 1, 1, 1], [1, 1, 1, 1]], spec_time_unit = None\<rparr>)
        [6000, 4000] [1, 1] [- 20, 20, 20] = Inl ValueError
   \<and> vrad_ccf_body curve_fit [1, 2] [5000, 5001, 5002, 5003]
        [[1, 1, 1, 1], [1, 1, 1, 1]] [[1, 1, 1, 1], [1, 1, 1, 1]] None [6000, 4000] [1, 1]
        [- 20, 20, 20] = Inl DomainError
   \<and> vrad_ccf_body curve_fit [] [5000, 5001, 5002, 5003] [] [] None [6000, 4000] [1, 1]
        [- 20, 20, 20]
       = Inr \<lparr>vrad_time = [], vrad_val = [], vrad_err = [], vrad_time_unit = None, fwhm_val = []\<rparr>"
proof -
  have u: "[0..<3] = [0, 1, 2 :: nat]"
    by code_simp
  have g: "velocity_grid [- 20, 20, 20] = Inr [- 20, 0, 20]"
    by (simp add: velocity_grid_def np_arange_def py_index_def bindE_def u)
  have n: "[- 20, 0, 20 :: real] \<noteq> []" "[5000, 5001, 5002, 5003 :: real] \<noteq> []"
    "[6000, 4000 :: real] \<noteq> []" "[[1, 1, 1, 1], [1, 1, 1, 1 :: real]] \<noteq> []"
    by simp_all
  have l: "length [1, 1 :: real] = length [6000, 4000 :: real]"
    by simp
  have d: "\<forall>x\<in>set [6000, 4000 :: real].
      \<not> (x * (1 + Min (set [- 20, 0, 20]) / c_light) > Min (set [5000, 5001, 5002, 5003])
          \<and> x * (1 + Max (set [- 20, 0, 20]) / c_light) < Max (set [5000, 5001, 5002, 5003]))"
    by (simp add: c_light_def)
  have fm: "filter_mask [5000, 5001, 5002, 5003] [- 20, 0, 20] [6000, 4000] [1, 1] = Inr ([], [])"
    by (rule filter_mask_drops_all [OF n(1) n(2) n(3) l d])
  have a: "compute_vrad_ccf curve_fit
        (Some \<lparr>spec_time = Some [1, 2], spec_wave = Some [5000, 5001, 5002, 5003],
          spec_flux_val = Some [[1, 1, 1, 1], [1, 1, 1, 1]],
          spec_flux_err = Some [[1, 1, 1, 1], [1, 1, 1, 1]], spec_time_unit = None\<rparr>)
        [6000, 4000] [1, 1] [- 20, 20, 20] = Inl ValueError"
    by (simp add: compute_vrad_ccf_def read_spec_long_time bindE_def)
  have b: "vrad_ccf_body curve_fit [1, 2] [5000, 5001, 5002, 5003]
        [[1, 1, 1, 1], [1, 1, 1, 1]] [[1, 1, 1, 1], [1, 1, 1, 1]] None [6000, 4000] [1, 1]
        [- 20, 20, 20] = Inl DomainError"
    by (rule body_empty_mask [OF g n(1) n(2) l d n(4)])
  have c: "vrad_ccf_body curve_fit [] [5000, 5001, 5002, 5003] [] [] None [6000, 4000] [1, 1]
        [- 20, 20, 20]
       = Inr \<lparr>vrad_time = [], vrad_val = [], vrad_err = [], vrad_time_unit = None, fwhm_val = []\<rparr>"
    by (simp add: vrad_ccf_body_def g fm bindE_def)
  from fm a b c show ?thesis by blast
qed

section \<open>The initial guess and the fit\<close>

lemma first_index_Nil [simp]: "first_index P [] = 0"
  by (simp add: first_index_def)

lemma first_index_Cons [simp]:
  "first_index P (x # xs) = (if P x then 0 else Suc (first_index P xs))"
  by (simp add: first_index_def)

lemma first_index_less: "\<exists>x\<in>set xs. P x \<Longrightarrow> first_index P xs < length xs"
  by (induction xs) auto




lemma argmin_from_less:
  "best < i \<Longrightarrow> argmin_from xs i mp best < i + length xs"
proof (induction xs arbitrary: i mp best)
  case Nil
  then show ?case by simp
next
  case (Cons x xs)
  have a: "argmin_from xs (Suc i) x i < Suc i + length xs"
    by (rule Cons.IH) simp
  have b: "argmin_from xs (Suc i) mp best < Suc i + length xs"
    by (rule Cons.IH) (use Cons.prems in simp)
  show ?case using a b Cons.prems by simp
qed

lemma np_argmin_less: "np_argmin xs = Inr k \<Longrightarrow> k < length xs"
  using argmin_from_less [of 0 1] by (cases xs) (auto simp: np_argmin_def)

lemma filter_snd_none: "True \<notin> set fs \<Longrightarrow> filter snd (zip xs fs) = []"
proof (induction fs arbitrary: xs)
  case Nil
  then show ?case by simp
next
  case (Cons f fs)
  then show ?case by (cases xs) auto
qed

lemma np_where_aux:
  "True \<in> set fs \<Longrightarrow> j = i + length fs \<Longrightarrow>
     \<exists>rest. map fst (filter snd (zip [i..<j] fs)) = (i + first_index (\<lambda>b. b) fs) # rest"
proof (induction fs arbitrary: i)
  case Nil
  then show ?case by simp
next
  case (Cons f fs)
  have u: "[i..<j] = i # [Suc i..<j]"
    using upt_conv_Cons [of i j] Cons.prems(2) by simp
  show ?case
  proof (cases f)
    case True
    then show ?thesis unfolding u by simp
  next
    case False
    then have "True \<in> set fs" using Cons.prems(1) by auto
    from Cons.IH [OF this, of "Suc i"] Cons.prems(2)
    obtain rest where "map fst (filter snd (zip [Suc i..<j] fs)) = (Suc i + first_index (\<lambda>b. b) fs) # rest"
      by auto
    then show ?thesis unfolding u using False by simp
  qed
qed

lemma np_where_first:
  "py_index (np_where flags) 0 =
     (if True \<in> set flags then Inr (first_index (\<lambda>b. b) flags) else Inl IndexError)"
proof (cases "True \<in> set flags")
  case True
  from np_where_aux [OF this, of "length flags" 0]
  obtain rest where "np_where flags = first_index (\<lambda>b. b) flags # rest"
    by (auto simp: np_where_def)
  then show ?thesis using True by (simp add: py_index_def)
next
  case False
  then show ?thesis by (simp add: np_where_def filter_snd_none py_index_def)
qed

lemma first_index_map: "first_index (\<lambda>b. b) (map P xs) = first_index P xs"
  by (induction xs) auto

lemma py_index_nat: "k < length xs \<Longrightarrow> py_index xs (int k) = Inr (xs ! k)"
  by (simp add: py_index_def)

text \<open>The initial guess for any array of floats with a maximum, a minimum and its index.\<close>

lemma initial_guess_eq:
  assumes "np_max ccf_val = Inr C0" and "np_min ccf_val = Inr lowest"
    and "np_argmin ccf_val = Inr k" and "length vrads = length ccf_val"
  shows "initial_guess vrads ccf_val =
     (if \<exists>y\<in>set ccf_val. flt y (C0 - (C0 - lowest) / Fin 2)
      then Inr (C0, C0 - lowest, vrads ! k,
             (Fin (vrads ! k) - Fin (vrads ! first_index (\<lambda>y. flt y (C0 - (C0 - lowest) / Fin 2)) ccf_val)) * Fin 2)
      else Inl IndexError)"
proof -
  let ?P = "\<lambda>y. flt y (C0 - (C0 - lowest) / Fin 2)"
  have k: "py_index vrads (int k) = Inr (vrads ! k)"
    using np_argmin_less [OF assms(3)] assms(4) by (simp add: py_index_nat)
  show ?thesis
  proof (cases "\<exists>y\<in>set ccf_val. ?P y")
    case True
    then have "first_index ?P ccf_val < length vrads"
      using first_index_less [of ccf_val ?P] assms(4) by simp
    then have h: "py_index vrads (int (first_index ?P ccf_val)) = Inr (vrads ! first_index ?P ccf_val)"
      by (simp add: py_index_nat)
    from True have t: "True \<in> set (map ?P ccf_val)" by auto
    show ?thesis
      using True t
      by (simp add: initial_guess_def assms(1,2,3) bindE_def Let_def k np_where_first
          first_index_map h del: set_map)
  next
    case False
    then have t: "True \<notin> set (map ?P ccf_val)" by auto
    show ?thesis
      using False t
      by (simp add: initial_guess_def assms(1,2,3) bindE_def Let_def k np_where_first del: set_map)
  qed
qed















lemma fmax2_NaN_right [simp]: "fmax2 x NaN = NaN"
  by (cases x) simp_all

lemma fmin2_NaN_right [simp]: "fmin2 x NaN = NaN"
  by (cases x) simp_all

lemma fold_fmax2_NaN [simp]: "fold fmax2 xs NaN = NaN"
  by (induction xs) simp_all

lemma fold_fmin2_NaN [simp]: "fold fmin2 xs NaN = NaN"
  by (induction xs) simp_all


lemma fold_fmin2_has_NaN: "NaN \<in> set (x # xs) \<Longrightarrow> fold fmin2 xs x = NaN"
  by (induction xs arbitrary: x) auto













text \<open>
  C6. With \<open>C0\<close> the maximum and \<open>C0 - a0\<close> the minimum of the CCF, the fit of one
  spectrum fails exactly when no value of the CCF is below \<open>C0 - a0 / 2\<close> or
  \<open>curve_fit\<close> fails from the initial guess. In the first case the error is the
  IndexError of line 223, in the second the error of \<open>curve_fit\<close> (RuntimeError when
  the optimiser does not converge); otherwise the result is that of \<open>curve_fit\<close>.
\<close>

theorem fit_fails_exactly:
  assumes "np_max ccf_val = Inr C0" and "np_min ccf_val = Inr lowest"
    and "length vrads = length ccf_val"
  shows "((\<exists>e. fit_gaussian curve_fit vrads ccf_val ccf_err = Inl e) \<longleftrightarrow>
            \<not> (\<exists>y\<in>set ccf_val. flt y (C0 - (C0 - lowest) / Fin 2))
            \<or> (\<exists>p0 e. initial_guess vrads ccf_val = Inr p0
                 \<and> curve_fit vrads ccf_val ccf_err p0 = Inl e))
         \<and> (\<not> (\<exists>y\<in>set ccf_val. flt y (C0 - (C0 - lowest) / Fin 2)) \<longrightarrow>
              fit_gaussian curve_fit vrads ccf_val ccf_err = Inl IndexError)
         \<and> (\<forall>p0. initial_guess vrads ccf_val = Inr p0 \<longrightarrow>
              fit_gaussian curve_fit vrads ccf_val ccf_err = curve_fit vrads ccf_val ccf_err p0)"
proof -
  from assms(1) have ne: "ccf_val \<noteq> []" by (auto simp: np_max_def)
  then obtain k where k: "np_argmin ccf_val = Inr k"
    by (cases ccf_val) (simp_all add: np_argmin_def)
  note g = initial_guess_eq [OF assms(1,2) k assms(3)]
  show ?thesis
  proof (cases "\<exists>y\<in>set ccf_val. flt y (C0 - (C0 - lowest) / Fin 2)")
    case True
    then show ?thesis using g by (auto simp: fit_gaussian_def bindE_def)
  next
    case False
    then show ?thesis using g by (auto simp: fit_gaussian_def bindE_def)
  qed
qed

theorem fit_fails_exactly_witness:
  "fit_gaussian (\<lambda>v c e p. Inl RuntimeError) [0, 1, 2, 3] (map Fin [3, 1, 0, 3]) (map Fin [1, 1, 1, 1])
     = Inl RuntimeError
   \<and> fit_gaussian (\<lambda>v c e (C, a, b, c0). Inr (C, a, Fin b, c0)) [0, 1, 2, 3] (map Fin [3, 1, 0, 3])
       (map Fin [1, 1, 1, 1]) = Inr (Fin 3, Fin 3, Fin 2, Fin 2)
   \<and> fit_gaussian (\<lambda>v c e (C, a, b, c0). Inr (C, a, Fin b, c0)) [0, 1] (map Fin [1, 1])
       (map Fin [1, 1]) = Inl IndexError"
proof -
  have r: "rnd (3 / 2) = Fin (3 / 2)"
    by (simp add: rnd_eval [where n = 0] rne_def)
  have g: "initial_guess [0, 1, 2, 3] (map Fin [3, 1, 0, 3]) = Inr (Fin 3, Fin 3, 2, Fin 2)"
    by (simp add: initial_guess_def np_max_def np_min_def np_argmin_def np_where_def py_index_def
        bindE_def Let_def Fin_minus Fin_divide Fin_times r)
  have a: "np_max (map Fin [3, 1, 0, 3]) = Inr (Fin 3)" "np_min (map Fin [3, 1, 0, 3]) = Inr (Fin 0)"
    "length [0, 1, 2, 3 :: real] = length (map Fin [3, 1, 0, 3])"
    by (simp_all add: np_max_def np_min_def)
  have b: "np_max (map Fin [1, 1]) = Inr (Fin 1)" "np_min (map Fin [1, 1]) = Inr (Fin 1)"
    "length [0, 1 :: real] = length (map Fin [1, 1])"
    by (simp_all add: np_max_def np_min_def)
  have n: "\<not> (\<exists>y\<in>set (map Fin [1, 1]). flt y (Fin 1 - (Fin 1 - Fin 1) / Fin 2))"
    by (simp add: Fin_minus Fin_divide)
  from fit_fails_exactly [OF a] g
  have "fit_gaussian (\<lambda>v c e p. Inl RuntimeError) [0, 1, 2, 3] (map Fin [3, 1, 0, 3])
      (map Fin [1, 1, 1, 1]) = Inl RuntimeError"
    by blast
  moreover from fit_fails_exactly [OF a] g
  have "fit_gaussian (\<lambda>v c e (C, a, b, c0). Inr (C, a, Fin b, c0)) [0, 1, 2, 3] (map Fin [3, 1, 0, 3])
      (map Fin [1, 1, 1, 1]) = Inr (Fin 3, Fin 3, Fin 2, Fin 2)"
    by simp
  moreover from fit_fails_exactly [OF b] n
  have "fit_gaussian (\<lambda>v c e (C, a, b, c0). Inr (C, a, Fin b, c0)) [0, 1] (map Fin [1, 1])
       (map Fin [1, 1]) = Inl IndexError"
    by blast
  ultimately show ?thesis by blast
qed


text \<open>A flat CCF: the fit fails with the IndexError of line 223, whatever the optimiser does.\<close>

theorem fit_error_of_flat_ccf:
  "fit_gaussian (\<lambda>v c e (C, a, b, c0). Inr (C, a, Fin b, c0)) [0, 1] [Fin 1, Fin 1] [Fin 1, Fin 1]
     = Inl IndexError
   \<and> fit_gaussian (\<lambda>v c e (C, a, b, c0). Inr (C, a, Fin b, c0)) [0, 1] [Fin 1, Fin 1] [Fin 1, Fin 1]
     \<noteq> Inl FitConvergenceError"
  by (simp add: fit_gaussian_def initial_guess_def np_max_def np_min_def np_argmin_def np_where_def
      py_index_def bindE_def Let_def Fin_minus Fin_divide)

section \<open>The cross-correlation function\<close>











text \<open>
  An example: one line at the wavelength \<open>c\<close> (in the units of the wavelengths), on
  six wavelengths of spacing 1 from \<open>c - 1 / 2\<close> on, and the velocities 0 to 4 km/s.
  The line, shifted to \<open>c + v\<close>, lies half way between the wavelengths \<open>v\<close> and \<open>v + 1\<close>.
\<close>

lemma example_insertion:
  "v \<in> set [0, 1, 2, 3, 4] \<Longrightarrow>
   right_insertion [299791958 / 1000, 299792958 / 1000, 299793958 / 1000, 299794958 / 1000,
      299795958 / 1000, 299796958 / 1000] (299792458 / 1000 * (1 + v / c_light)) = nat \<lfloor>v\<rfloor> + 1"
  by (auto simp: right_insertion_def c_light_def)







end
